theory Spec2Isabelle
  imports Main
begin

section \<open>The ethatomicswap command-line tool\<close>

text \<open>
  A shallow embedding of \<^verbatim>\<open>cmd/ethatomicswap/main.go\<close>. Go strings are byte
  sequences and are modelled as \<^typ>\<open>string\<close>; \<^verbatim>\<open>len\<close> is \<^const>\<open>length\<close>.
  Go's \<^verbatim>\<open>int\<close> and \<^verbatim>\<open>time.Duration\<close> are modelled as \<^typ>\<open>int\<close>: the integers
  of the program are small argument counts and one ten-second duration, far from the
  64-bit bounds. Run-time panics, process exits and errors are values of the model, and
  what the program prints or sends is a list of events.

  The functions of the Go standard library that the program calls (\<^verbatim>\<open>net.SplitHostPort\<close>,
  \<^verbatim>\<open>net.JoinHostPort\<close>, \<^verbatim>\<open>strings.HasPrefix\<close>, \<^verbatim>\<open>flag.FlagSet.Parse\<close>) are modelled
  after the library; the RPC server is a parameter of the model.
\<close>

subsection \<open>Constants and data\<close>


record Block =
  Number :: string
  Hash :: string

datatype panic = SliceBoundsOutOfRange | NilPointerDereference

text \<open>
  Error values: \<^verbatim>\<open>net.AddrError\<close> with its fields, and the errors made by
  \<^verbatim>\<open>fmt.Errorf\<close> or handed back by the RPC client, known by their message.
\<close>

datatype error = AddrError (Err: string) (Addr: string) | ErrorString string

text \<open>The \<^verbatim>\<open>Error()\<close> method, which \<^verbatim>\<open>%v\<close> and \<^verbatim>\<open>Fprintln\<close> print.\<close>

fun Error_string :: "error \<Rightarrow> string" where
  "Error_string (AddrError err addr) =
     (if addr \<noteq> [] then ''address '' @ addr @ '': '' @ err else err)"
| "Error_string (ErrorString s) = s"

subsection \<open>Host and port (package net)\<close>

text \<open>\<^verbatim>\<open>IndexByteString\<close> and \<^verbatim>\<open>LastIndexByteString\<close>; \<open>None\<close> is Go's \<open>-1\<close>.\<close>

fun IndexByteString :: "string \<Rightarrow> char \<Rightarrow> nat option" where
  "IndexByteString [] c = None"
| "IndexByteString (x # xs) c =
     (if x = c then Some 0 else map_option Suc (IndexByteString xs c))"

definition LastIndexByteString :: "string \<Rightarrow> char \<Rightarrow> nat option" where
  "LastIndexByteString s c =
     (case IndexByteString (rev s) c of
        None \<Rightarrow> None
      | Some k \<Rightarrow> Some (length s - 1 - k))"

definition missingPort :: string where
  "missingPort = ''missing port in address''"

definition tooManyColons :: string where
  "tooManyColons = ''too many colons in address''"

definition addrErr :: "string \<Rightarrow> string \<Rightarrow> error + 'a" where
  "addrErr addr why = Inl (AddrError why addr)"

text \<open>
  \<^verbatim>\<open>net.SplitHostPort\<close>. The port starts after the last colon; a host in brackets
  must end just before that colon. The inner \<open>case\<close> computes \<open>host\<close> and the offsets
  \<open>j\<close> and \<open>k\<close> of both branches of the library's \<^verbatim>\<open>if hostport[0] == '['\<close>.
\<close>

definition SplitHostPort :: "string \<Rightarrow> error + string \<times> string" where
  "SplitHostPort hostport =
     (case LastIndexByteString hostport CHR '':'' of
        None \<Rightarrow> addrErr hostport missingPort
      | Some i \<Rightarrow>
          (case
             (if take 1 hostport = ''['' then
                (case IndexByteString hostport CHR '']'' of
                   None \<Rightarrow> addrErr hostport ''missing ']' in address''
                 | Some endi \<Rightarrow>
                     if endi + 1 = length hostport then addrErr hostport missingPort
                     else if endi + 1 = i then Inr (take (endi - 1) (drop 1 hostport), 1, endi + 1)
                     else if hostport ! (endi + 1) = CHR '':'' then addrErr hostport tooManyColons
                     else addrErr hostport missingPort)
              else
                (let host = take i hostport in
                 if IndexByteString host CHR '':'' \<noteq> None then addrErr hostport tooManyColons
                 else Inr (host, 0, 0)))
           of
             Inl e \<Rightarrow> Inl e
           | Inr (host, j, k) \<Rightarrow>
               if IndexByteString (drop j hostport) CHR ''['' \<noteq> None
               then addrErr hostport ''unexpected '[' in address''
               else if IndexByteString (drop k hostport) CHR '']'' \<noteq> None
               then addrErr hostport ''unexpected ']' in address''
               else Inr (host, drop (i + 1) hostport)))"

definition JoinHostPort :: "string \<Rightarrow> string \<Rightarrow> string" where
  "JoinHostPort host port =
     (if IndexByteString host CHR '':'' \<noteq> None then ''['' @ host @ '']:'' @ port
      else host @ '':'' @ port)"

subsection \<open>The server address\<close>

definition normalizeAddress :: "string \<Rightarrow> string \<Rightarrow> error + string" where
  "normalizeAddress addr defaultPort =
     (case SplitHostPort addr of
        Inr (host, port) \<Rightarrow> Inr (JoinHostPort host port)
      | Inl origErr \<Rightarrow>
          (let addr' = JoinHostPort addr defaultPort in
           case SplitHostPort addr' of
             Inl err \<Rightarrow> Inl origErr
           | Inr _ \<Rightarrow> Inr (''http://'' @ addr')))"

definition walletPort :: "string \<Rightarrow> string" where
  "walletPort params =
     (if params = ''testnet'' then ''8545''
      else if params = ''mainnet'' then ''8545''
      else ''8545'')"

subsection \<open>Counting the positional arguments of a command\<close>

text \<open>\<^verbatim>\<open>strings.HasPrefix\<close>: \<^verbatim>\<open>len(s) >= len(prefix) && s[:len(prefix)] == prefix\<close>.\<close>

definition HasPrefix :: "string \<Rightarrow> string \<Rightarrow> bool" where
  "HasPrefix s prefix = (length s \<ge> length prefix \<and> take (length prefix) s = prefix)"

text \<open>
  The loop \<^verbatim>\<open>for i, arg := range args[:required]\<close> of \<^verbatim>\<open>checkCmdArgLength\<close>:
  \<open>i\<close> is the index of the head of the remaining slice.
\<close>

fun checkCmdArgLength_loop :: "nat \<Rightarrow> string list \<Rightarrow> nat \<Rightarrow> nat" where
  "checkCmdArgLength_loop i [] required = required"
| "checkCmdArgLength_loop i (arg # args) required =
     (if length arg \<noteq> 1 \<and> HasPrefix arg ''-'' then i
      else checkCmdArgLength_loop (Suc i) args required)"

text \<open>
  \<^verbatim>\<open>args[:required]\<close> panics for a negative \<^verbatim>\<open>required\<close>; the guard before it
  makes \<^verbatim>\<open>required <= len(args)\<close> there.
\<close>

definition checkCmdArgLength :: "string list \<Rightarrow> int \<Rightarrow> panic + int" where
  "checkCmdArgLength args required =
     (if int (length args) < required then Inr 0
      else if required < 0 then Inl SliceBoundsOutOfRange
      else Inr (int (checkCmdArgLength_loop 0 (take (nat required) args) (nat required))))"

subsection \<open>The flag set (package flag)\<close>

text \<open>
  The four flags of \<^verbatim>\<open>flagset\<close> with their default values. The program keeps them in
  package variables that \<^verbatim>\<open>flagset.Parse\<close> updates; the model passes the record along.
\<close>

record flags =
  connectFlag :: string
  rpcuserFlag :: string
  rpcpassFlag :: string
  testnetFlag :: bool

definition flagset :: flags where
  "flagset = \<lparr>connectFlag = ''localhost'', rpcuserFlag = [], rpcpassFlag = [],
              testnetFlag = False\<rparr>"

text \<open>The four failures that \<^verbatim>\<open>parseOne\<close> reports through \<^verbatim>\<open>failf\<close>.\<close>

datatype flag_error =
    BadFlagSyntax string
  | NotDefined string
  | InvalidBooleanValue string string
  | NeedsArgument string

text \<open>
  A context is \<^verbatim>\<open>context.Background()\<close> or made from a parent by
  \<^verbatim>\<open>context.WithTimeout\<close>, with a duration in nanoseconds.
\<close>

datatype Context = Background | WithTimeout Context int

datatype rpc_arg = ArgString string | ArgBool bool

type_synonym client = nat

text \<open>
  What the process does to the outside: lines on standard output and standard error,
  the message of a flag failure, the usage text, the builtin \<^verbatim>\<open>println\<close> of the
  initiate command, and the dial, calls and close sent to the RPC library.
\<close>

datatype event =
    Stdout string
  | Stderr string
  | FlagFailure flag_error
  | Usage
  | Println string error
  | RpcDial string
  | RpcCall client Context string "rpc_arg list"
  | RpcClose client

text \<open>\<^verbatim>\<open>strconv.ParseBool\<close>, which sets a boolean flag written \<^verbatim>\<open>-name=value\<close>.\<close>

definition ParseBool :: "string \<Rightarrow> bool option" where
  "ParseBool str =
     (if str \<in> set [''1'', ''t'', ''T'', ''TRUE'', ''true'', ''True''] then Some True
      else if str \<in> set [''0'', ''f'', ''F'', ''FALSE'', ''false'', ''False''] then Some False
      else None)"

text \<open>
  \<^verbatim>\<open>parseOne\<close> returns \<^verbatim>\<open>(true, nil)\<close> after a flag (\<open>Seen\<close>, with the flags set and
  the arguments left), \<^verbatim>\<open>(false, nil)\<close> at the first argument that is no flag or after
  \<^verbatim>\<open>--\<close> (\<open>NotSeen\<close>), and \<^verbatim>\<open>(false, err)\<close> otherwise.
\<close>

datatype parseOne_result =
    Seen flags "string list"
  | NotSeen "string list"
  | Failf flag_error
  | ErrHelp

definition parseOne :: "flags \<Rightarrow> string list \<Rightarrow> parseOne_result" where
  "parseOne f args =
     (case args of
        [] \<Rightarrow> NotSeen []
      | s # rest \<Rightarrow>
          if length s < 2 \<or> take 1 s \<noteq> ''-'' then NotSeen args
          else
            let numMinuses = (if s ! 1 = CHR ''-'' then 2 else 1 :: nat) in
            if numMinuses = 2 \<and> length s = 2 then NotSeen rest
            else
              let name = drop numMinuses s in
              if length name = 0 \<or> take 1 name = ''-'' \<or> take 1 name = ''=''
              then Failf (BadFlagSyntax s)
              else
                let (name, hasValue, val) =
                      (case IndexByteString (drop 1 name) CHR ''='' of
                         None \<Rightarrow> (name, False, [])
                       | Some k \<Rightarrow> (take (k + 1) name, True, drop (k + 2) name)) in
                if name = ''testnet'' then
                  (if hasValue then
                     (case ParseBool val of
                        None \<Rightarrow> Failf (InvalidBooleanValue val name)
                      | Some b \<Rightarrow> Seen (f\<lparr>testnetFlag := b\<rparr>) rest)
                   else Seen (f\<lparr>testnetFlag := True\<rparr>) rest)
                else if name = ''s'' \<or> name = ''rpcuser'' \<or> name = ''rpcpass'' then
                  (case (if hasValue then Some (val, rest)
                         else (case rest of [] \<Rightarrow> None | v # rest' \<Rightarrow> Some (v, rest'))) of
                     None \<Rightarrow> Failf (NeedsArgument name)
                   | Some (v, rest') \<Rightarrow>
                       Seen (if name = ''s'' then f\<lparr>connectFlag := v\<rparr>
                             else if name = ''rpcuser'' then f\<lparr>rpcuserFlag := v\<rparr>
                             else f\<lparr>rpcpassFlag := v\<rparr>) rest')
                else if name = ''help'' \<or> name = ''h'' then ErrHelp
                else Failf (NotDefined name))"

text \<open>
  \<^verbatim>\<open>Parse\<close> of a flag set made with \<^verbatim>\<open>flag.ExitOnError\<close>: a failure prints its
  message and the usage text and ends the process with status 2; \<^verbatim>\<open>-h\<close> or
  \<^verbatim>\<open>-help\<close> prints the usage text and ends it with status 0 (Go 1.15 and later;
  status 2 before). Otherwise it returns with the flags set and the arguments left,
  which \<^verbatim>\<open>flagset.Args()\<close> then gives.
\<close>

datatype parse_result = Parsed flags "string list" | ExitOnError nat "event list"

function Parse :: "flags \<Rightarrow> string list \<Rightarrow> parse_result" where
  "Parse f arguments =
     (case parseOne f arguments of
        Seen f' args' \<Rightarrow> Parse f' args'
      | NotSeen args' \<Rightarrow> Parsed f args'
      | Failf e \<Rightarrow> ExitOnError 2 [FlagFailure e, Usage]
      | ErrHelp \<Rightarrow> ExitOnError 0 [Usage])"
  by pat_completeness auto
termination
  by (relation "measure (\<lambda>(f, arguments). length arguments)")
     (auto simp: parseOne_def Let_def split: list.splits if_splits option.splits prod.splits)

declare Parse.simps [simp del]

subsection \<open>The RPC server and the commands\<close>

definition Second :: int where
  "Second = 1000000000"

text \<open>
  The time a context leaves to a call, in nanoseconds from the moment the context and
  its parents are made: none for the background context, and the smaller of the parent's
  and its own for a context with a timeout.
\<close>

fun Deadline :: "Context \<Rightarrow> int option" where
  "Deadline Background = None"
| "Deadline (WithTimeout parent d) =
     (case Deadline parent of None \<Rightarrow> Some d | Some t \<Rightarrow> Some (min t d))"

text \<open>
  The RPC library and the server behind it are the parameter \<open>env\<close>: what
  \<^verbatim>\<open>rpc.Dial\<close> answers for an address, and what \<^verbatim>\<open>CallContext\<close> answers on a client
  for a context, a method and its arguments (the block it decodes, or an error).
\<close>

record env =
  Dial :: "string \<Rightarrow> error + client"
  CallContext :: "client \<Rightarrow> Context \<Rightarrow> string \<Rightarrow> rpc_arg list \<Rightarrow> error + Block"

text \<open>
  Of the five command types only \<^verbatim>\<open>initiateCmd\<close> has the method \<^verbatim>\<open>runCommand\<close>,
  so it is the only implementation of the interface \<^verbatim>\<open>command\<close>. A value of the
  interface is a \<open>command option\<close>, \<open>None\<close> being \<^verbatim>\<open>nil\<close>.
\<close>

datatype command = initiateCmd

text \<open>
  The method's first statement assigns a new context to its parameter \<^verbatim>\<open>ctx\<close>:
  \<^verbatim>\<open>ctx, cancel := context.WithTimeout(context.Background(), 10*time.Second)\<close>.
\<close>

definition initiateCmd_runCommand ::
  "env \<Rightarrow> Context \<Rightarrow> client \<Rightarrow> error option \<times> event list" where
  "initiateCmd_runCommand env ctx c =
     (let ctx = WithTimeout Background (10 * Second);
          call = RpcCall c ctx ''eth_getBlockByNumber'' [ArgString ''latest'', ArgBool False] in
      case CallContext env c ctx ''eth_getBlockByNumber'' [ArgString ''latest'', ArgBool False] of
        Inl err \<Rightarrow> (Some err, [call, Println ''can't get latest block:'' err])
      | Inr lastBlock \<Rightarrow> (None, [call, Stdout (Number lastBlock), Stdout (Hash lastBlock)]))"

fun runCommand :: "command \<Rightarrow> env \<Rightarrow> Context \<Rightarrow> client \<Rightarrow> error option \<times> event list" where
  "runCommand initiateCmd env ctx c = initiateCmd_runCommand env ctx c"

subsection \<open>run and main\<close>

text \<open>
  The first \<^verbatim>\<open>switch args[0]\<close> of \<^verbatim>\<open>run\<close>: the number of arguments of the command,
  \<open>None\<close> in the default branch.
\<close>

definition run_cmdArgs :: "string \<Rightarrow> int option" where
  "run_cmdArgs arg0 =
     (if arg0 = ''initiate'' then Some 2
      else if arg0 = ''participate'' then Some 3
      else if arg0 = ''redeem'' then Some 3
      else if arg0 = ''extractsecret'' then Some 2
      else if arg0 = ''auditcontract'' then Some 2
      else None)"

text \<open>
  The second \<^verbatim>\<open>switch args[0]\<close> of \<^verbatim>\<open>run\<close>: \<^verbatim>\<open>var cmd command\<close> starts as
  \<^verbatim>\<open>nil\<close>, and only the case \<^verbatim>\<open>initiate\<close> assigns it.
\<close>

definition run_cmd :: "string \<Rightarrow> command option" where
  "run_cmd arg0 =
     (if arg0 = ''initiate'' then Some initiateCmd
      else if arg0 = ''participate'' then None
      else if arg0 = ''redeem'' then None
      else if arg0 = ''extractsecret'' then None
      else if arg0 = ''auditcontract'' then None
      else None)"

text \<open>
  How \<^verbatim>\<open>run\<close> ends: it returns \<^verbatim>\<open>(err, showUsage)\<close>, or the flag set ends the
  process, or it panics.
\<close>

datatype outcome =
    Returned "error option" bool
  | Exited nat
  | Panicked panic

text \<open>
  \<^verbatim>\<open>run\<close>, on the arguments \<^verbatim>\<open>os.Args[1:]\<close>. The deferred \<^verbatim>\<open>client.Close()\<close> runs
  when \<^verbatim>\<open>run\<close> returns and when it panics.
\<close>

definition run :: "env \<Rightarrow> string list \<Rightarrow> outcome \<times> event list" where
  "run env osArgs =
     (case Parse flagset osArgs of
        ExitOnError status evs \<Rightarrow> (Exited status, evs)
      | Parsed f args \<Rightarrow>
          (case args of
             [] \<Rightarrow> (Returned None True, [])
           | arg0 # rest \<Rightarrow>
               (case run_cmdArgs arg0 of
                  None \<Rightarrow> (Returned (Some (ErrorString (''unknown command '' @ arg0))) True, [])
                | Some cmdArgs \<Rightarrow>
                    (case checkCmdArgLength rest cmdArgs of
                       Inl p \<Rightarrow> (Panicked p, [])
                     | Inr nArgs \<Rightarrow>
                         (case Parse f (drop (1 + nat nArgs) args) of
                            ExitOnError status evs \<Rightarrow> (Exited status, evs)
                          | Parsed f' remaining \<Rightarrow>
                              if nArgs < cmdArgs
                              then (Returned (Some (ErrorString (arg0 @ '': too few arguments'')))
                                      True, [])
                              else if length remaining \<noteq> 0
                              then (Returned (Some (ErrorString
                                      (''unexpected argument: '' @ hd remaining))) True, [])
                              else
                                (case normalizeAddress (connectFlag f') (walletPort ''mainnet'') of
                                   Inl err \<Rightarrow>
                                     (Returned (Some (ErrorString
                                        (''geth server address: '' @ Error_string err))) True, [])
                                 | Inr connect \<Rightarrow>
                                     (case Dial env connect of
                                        Inl err \<Rightarrow>
                                          (Returned (Some (ErrorString
                                             (''rpc connect: '' @ Error_string err))) False,
                                           [RpcDial connect])
                                      | Inr client \<Rightarrow>
                                          (case run_cmd arg0 of
                                             None \<Rightarrow>
                                               (Panicked NilPointerDereference,
                                                [RpcDial connect, RpcClose client])
                                           | Some cmd \<Rightarrow>
                                               (let (err, evs) =
                                                      runCommand cmd env Background client in
                                                (Returned err False,
                                                 RpcDial connect # evs @ [RpcClose client]))))))))))"

text \<open>How the process ends: with an exit status, or in a panic of the Go run time.\<close>

datatype process_end = ExitStatus nat | Crashed panic

text \<open>
  \<^verbatim>\<open>main\<close> prints the error to standard error, then the usage text if asked, and
  calls \<^verbatim>\<open>os.Exit(1)\<close> in both cases; returning from \<^verbatim>\<open>main\<close> is exit status 0.
\<close>

definition main :: "env \<Rightarrow> string list \<Rightarrow> process_end \<times> event list" where
  "main env osArgs =
     (case run env osArgs of
        (Exited status, evs) \<Rightarrow> (ExitStatus status, evs)
      | (Panicked p, evs) \<Rightarrow> (Crashed p, evs)
      | (Returned err showUsage, evs) \<Rightarrow>
          (let evs1 = (case err of None \<Rightarrow> [] | Some e \<Rightarrow> [Stderr (Error_string e)]);
               evs2 = (if showUsage then [Usage] else []) in
           if err \<noteq> None \<or> showUsage then (ExitStatus 1, evs @ evs1 @ evs2)
           else (ExitStatus 0, evs @ evs1 @ evs2)))"

subsection \<open>A server for the examples\<close>

text \<open>
  A server that accepts every connection as client 7 and answers every call with the
  block of number \<open>0x10\<close> and hash \<open>0xabc\<close>.
\<close>

definition example_env :: env where
  "example_env =
     \<lparr>Dial = (\<lambda>addr. Inr 7),
      CallContext = (\<lambda>c ctx m args. Inr \<lparr>Number = ''0x10'', Hash = ''0xabc''\<rparr>)\<rparr>"

section \<open>Properties\<close>

subsection \<open>The argument counter\<close>

lemma HasPrefix_dash: "HasPrefix s ''-'' \<longleftrightarrow> (\<exists>t. s = CHR ''-'' # t)"
  by (cases s) (auto simp: HasPrefix_def)

lemma checkCmdArgLength_loop_cases:
  "length xs + i = required \<Longrightarrow>
   (let r = checkCmdArgLength_loop i xs required in
      (i \<le> r \<and> r < required \<and> length (xs ! (r - i)) \<noteq> 1 \<and> HasPrefix (xs ! (r - i)) ''-''
         \<and> (\<forall>j < r - i. \<not> (length (xs ! j) \<noteq> 1 \<and> HasPrefix (xs ! j) ''-'')))
      \<or> (r = required \<and> (\<forall>j < length xs. \<not> (length (xs ! j) \<noteq> 1 \<and> HasPrefix (xs ! j) ''-''))))"
proof (induction xs arbitrary: i)
  case Nil
  then show ?case by simp
next
  case (Cons a xs)
  show ?case
  proof (cases "length a \<noteq> 1 \<and> HasPrefix a ''-''")
    case True
    with Cons.prems show ?thesis by (simp add: Let_def)
  next
    case False
    from Cons.prems have len: "length xs + Suc i = required" by simp
    let ?r = "checkCmdArgLength_loop (Suc i) xs required"
    have r: "checkCmdArgLength_loop i (a # xs) required = ?r" using False by auto
    from Cons.IH [OF len] consider
      (found) "Suc i \<le> ?r" "?r < required"
        "length (xs ! (?r - Suc i)) \<noteq> 1" "HasPrefix (xs ! (?r - Suc i)) ''-''"
        "\<forall>j < ?r - Suc i. \<not> (length (xs ! j) \<noteq> 1 \<and> HasPrefix (xs ! j) ''-'')"
      | (none) "?r = required"
        "\<forall>j < length xs. \<not> (length (xs ! j) \<noteq> 1 \<and> HasPrefix (xs ! j) ''-'')"
      by (auto simp: Let_def)
    then show ?thesis
    proof cases
      case found
      have idx: "?r - i = Suc (?r - Suc i)" using found(1) by simp
      have "\<forall>j < ?r - i. \<not> (length ((a # xs) ! j) \<noteq> 1 \<and> HasPrefix ((a # xs) ! j) ''-'')"
      proof (intro allI impI)
        fix j assume j: "j < ?r - i"
        show "\<not> (length ((a # xs) ! j) \<noteq> 1 \<and> HasPrefix ((a # xs) ! j) ''-'')"
        proof (cases j)
          case 0
          then show ?thesis using False by simp
        next
          case (Suc k)
          then have "k < ?r - Suc i" using j idx by simp
          then show ?thesis using found(5) Suc by simp
        qed
      qed
      then show ?thesis
        unfolding r Let_def using found idx by simp
    next
      case none
      have "\<forall>j < length (a # xs). \<not> (length ((a # xs) ! j) \<noteq> 1 \<and> HasPrefix ((a # xs) ! j) ''-'')"
      proof (intro allI impI)
        fix j assume j: "j < length (a # xs)"
        show "\<not> (length ((a # xs) ! j) \<noteq> 1 \<and> HasPrefix ((a # xs) ! j) ''-'')"
        proof (cases j)
          case 0
          then show ?thesis using False by simp
        next
          case (Suc k)
          then have "k < length xs" using j by simp
          then show ?thesis using none(2) Suc by simp
        qed
      qed
      then show ?thesis
        unfolding r Let_def using none(1) by blast
    qed
  qed
qed

text \<open>
  Claim C10: for a non-negative \<open>required\<close>, \<open>checkCmdArgLength args required\<close> is 0
  when there are fewer than \<open>required\<close> arguments; otherwise it is the index of the
  first of the first \<open>required\<close> arguments that starts with \<open>-\<close> and whose length is
  not 1, or \<open>required\<close> when there is none. A lone \<open>-\<close> counts as positional.
\<close>

theorem checkCmdArgLength_spec:
  assumes "0 \<le> required"
  shows "(int (length args) < required \<longrightarrow> checkCmdArgLength args required = Inr 0)
    \<and> (required \<le> int (length args) \<longrightarrow>
         (\<exists>i. checkCmdArgLength args required = Inr (int i) \<and>
            ((i < nat required \<and> length (args ! i) \<noteq> 1 \<and> HasPrefix (args ! i) ''-''
                \<and> (\<forall>j < i. \<not> (length (args ! j) \<noteq> 1 \<and> HasPrefix (args ! j) ''-'')))
             \<or> (i = nat required
                \<and> (\<forall>j < nat required. \<not> (length (args ! j) \<noteq> 1 \<and> HasPrefix (args ! j) ''-''))))))
    \<and> checkCmdArgLength [''-'', ''x''] 2 = Inr 2"
proof (intro conjI impI)
  assume "int (length args) < required"
  then show "checkCmdArgLength args required = Inr 0"
    by (simp add: checkCmdArgLength_def)
next
  assume le: "required \<le> int (length args)"
  let ?n = "nat required"
  let ?xs = "take ?n args"
  let ?r = "checkCmdArgLength_loop 0 ?xs ?n"
  have n: "?n \<le> length args" using le assms by simp
  then have len: "length ?xs + 0 = ?n" by simp
  have res: "checkCmdArgLength args required = Inr (int ?r)"
    using le assms by (simp add: checkCmdArgLength_def)
  have nth: "\<And>j. j < ?n \<Longrightarrow> ?xs ! j = args ! j" by simp
  from checkCmdArgLength_loop_cases [OF len] consider
    (found) "?r < ?n" "length (?xs ! ?r) \<noteq> 1" "HasPrefix (?xs ! ?r) ''-''"
      "\<forall>j < ?r. \<not> (length (?xs ! j) \<noteq> 1 \<and> HasPrefix (?xs ! j) ''-'')"
    | (none) "?r = ?n" "\<forall>j < length ?xs. \<not> (length (?xs ! j) \<noteq> 1 \<and> HasPrefix (?xs ! j) ''-'')"
    by (auto simp: Let_def)
  then show "\<exists>i. checkCmdArgLength args required = Inr (int i) \<and>
            ((i < nat required \<and> length (args ! i) \<noteq> 1 \<and> HasPrefix (args ! i) ''-''
                \<and> (\<forall>j < i. \<not> (length (args ! j) \<noteq> 1 \<and> HasPrefix (args ! j) ''-'')))
             \<or> (i = nat required
                \<and> (\<forall>j < nat required. \<not> (length (args ! j) \<noteq> 1 \<and> HasPrefix (args ! j) ''-''))))"
  proof cases
    case found
    have "\<forall>j < ?r. \<not> (length (args ! j) \<noteq> 1 \<and> HasPrefix (args ! j) ''-'')"
      using found(1,4) nth by (metis less_trans)
    moreover have "length (args ! ?r) \<noteq> 1" "HasPrefix (args ! ?r) ''-''"
      using found(1-3) nth by metis+
    ultimately show ?thesis using res found(1) by blast
  next
    case none
    have "\<forall>j < ?n. \<not> (length (args ! j) \<noteq> 1 \<and> HasPrefix (args ! j) ''-'')"
      using none(2) nth len by (metis add.right_neutral)
    then show ?thesis using res none(1) by metis
  qed
next
  show "checkCmdArgLength [''-'', ''x''] 2 = Inr 2"
    by (simp add: checkCmdArgLength_def HasPrefix_def)
qed

theorem checkCmdArgLength_spec_witness:
  "(0::int) \<le> 2
   \<and> checkCmdArgLength [''addr''] 2 = Inr 0
   \<and> checkCmdArgLength [''addr'', ''-testnet'', ''5''] 2 = Inr 1
   \<and> checkCmdArgLength [''addr'', ''5'', ''-testnet''] 2 = Inr 2"
proof -
  have h: "(0::int) \<le> 2" by simp
  have a: "checkCmdArgLength [''addr''] 2 = Inr 0"
    using checkCmdArgLength_spec [OF h, of "[''addr'']"] by simp
  have b: "checkCmdArgLength [''addr'', ''-testnet'', ''5''] 2 = Inr 1"
    by (simp add: checkCmdArgLength_def HasPrefix_def)
  have c: "checkCmdArgLength [''addr'', ''5'', ''-testnet''] 2 = Inr 2"
    by (simp add: checkCmdArgLength_def HasPrefix_def)
  show ?thesis using h a b c by simp
qed

subsection \<open>Flag parsing and the ways run ends\<close>

lemma Parse_Nil: "Parse f [] = Parsed f []"
  by (simp add: Parse.simps parseOne_def)

lemma Parse_positional:
  "length s < 2 \<or> take 1 s \<noteq> ''-'' \<Longrightarrow> Parse f (s # rest) = Parsed f (s # rest)"
  by (simp add: Parse.simps parseOne_def)

lemma positional_no_flag:
  "\<not> (length a \<noteq> 1 \<and> HasPrefix a ''-'') \<Longrightarrow> length a < 2 \<or> take 1 a \<noteq> ''-''"
  by (cases a) (auto simp: HasPrefix_def)

lemma Parse_ExitOnError:
  "Parse f args = ExitOnError status evs \<Longrightarrow>
   (status = 2 \<and> (\<exists>e. evs = [FlagFailure e, Usage])) \<or> (status = 0 \<and> evs = [Usage])"
proof (induction f args rule: Parse.induct)
  case (1 f arguments)
  show ?case
  proof (cases "parseOne f arguments")
    case (Seen f' args')
    with 1 show ?thesis by (simp add: Parse.simps [of f arguments])
  next
    case (NotSeen args')
    with 1 show ?thesis by (simp add: Parse.simps [of f arguments])
  next
    case (Failf e)
    with 1 show ?thesis by (auto simp add: Parse.simps [of f arguments])
  next
    case ErrHelp
    with 1 show ?thesis by (auto simp add: Parse.simps [of f arguments])
  qed
qed

lemma run_cmdArgs_Some:
  "run_cmdArgs arg0 = Some n \<Longrightarrow>
   arg0 \<in> {''initiate'', ''participate'', ''redeem'', ''extractsecret'', ''auditcontract''}
   \<and> 2 \<le> n \<and> take 1 arg0 \<noteq> ''-''"
  by (auto simp: run_cmdArgs_def split: if_splits)

lemma run_cmdArgs_None:
  "run_cmdArgs arg0 = None \<longleftrightarrow>
   arg0 \<notin> {''initiate'', ''participate'', ''redeem'', ''extractsecret'', ''auditcontract''}"
  by (auto simp: run_cmdArgs_def split: if_splits)

lemma runCommand_no_Usage: "runCommand cmd env ctx c = (err, evs) \<Longrightarrow> Usage \<notin> set evs"
  by (cases cmd) (auto simp: initiateCmd_runCommand_def Let_def split: sum.splits)

lemma runCommand_no_RpcDial: "runCommand cmd env ctx c = (err, evs) \<Longrightarrow> RpcDial a \<notin> set evs"
  by (cases cmd) (auto simp: initiateCmd_runCommand_def Let_def split: sum.splits)

lemma run_Returned_no_Usage:
  assumes "run env osArgs = (Returned err showUsage, evs)"
  shows "Usage \<notin> set evs"
  using assms
  by (auto simp: run_def Let_def dest: runCommand_no_Usage
      split: parse_result.splits list.splits option.splits sum.splits if_splits prod.splits)

lemma run_Exited:
  assumes "run env osArgs = (Exited status, evs)"
  shows "(status = 2 \<and> (\<exists>e. evs = [FlagFailure e, Usage])) \<or> (status = 0 \<and> evs = [Usage])"
  using assms
  by (auto simp: run_def Let_def dest: Parse_ExitOnError
      split: parse_result.splits list.splits option.splits sum.splits if_splits prod.splits)

subsection \<open>The server address\<close>

lemma IndexByteString_Some:
  "IndexByteString s c = Some k \<Longrightarrow> k < length s \<and> s ! k = c"
  by (induction s arbitrary: k) (auto split: if_splits)

lemma LastIndexByteString_Some:
  assumes "LastIndexByteString s c = Some i"
  shows "i < length s \<and> s ! i = c"
proof -
  from assms obtain k where k: "IndexByteString (rev s) c = Some k" and i: "i = length s - 1 - k"
    by (auto simp: LastIndexByteString_def split: option.splits)
  from IndexByteString_Some [OF k] have kl: "k < length s" and c: "rev s ! k = c" by simp_all
  from kl have "rev s ! k = s ! (length s - Suc k)" by (simp add: rev_nth)
  with c kl i show ?thesis by simp
qed

text \<open>
  An address without brackets that splits into host and port is rejoined to itself:
  \<open>normalizeAddress\<close> returns it as it is.
\<close>

lemma normalizeAddress_unchanged:
  assumes "SplitHostPort addr = Inr (host, port)" and "take 1 addr \<noteq> ''[''"
  shows "normalizeAddress addr defaultPort = Inr addr"
proof -
  from assms obtain i where i: "LastIndexByteString addr CHR '':'' = Some i"
    and host: "host = take i addr" and port: "port = drop (i + 1) addr"
    and nocolon: "IndexByteString (take i addr) CHR '':'' = None"
    by (auto simp: SplitHostPort_def addrErr_def Let_def split: option.splits if_splits)
  from LastIndexByteString_Some [OF i] have il: "i < length addr" and c: "addr ! i = CHR '':''"
    by simp_all
  have "take i addr @ '':'' @ drop (i + 1) addr = addr"
    using id_take_nth_drop [OF il] c by simp
  then have "JoinHostPort host port = addr"
    using host port nocolon by (simp add: JoinHostPort_def)
  then show ?thesis using assms(1) by (simp add: normalizeAddress_def)
qed

text \<open>
  Claim C9: an address that already splits into host and port comes back rejoined, with
  no scheme put before it; an address that splits only once the default port is joined to
  it comes back with the port and with \<open>http://\<close> before it; an address that splits
  neither way gives the error of the first attempt.
\<close>

theorem normalizeAddress_cases:
  "(\<forall>host port. SplitHostPort addr = Inr (host, port) \<longrightarrow>
      normalizeAddress addr defaultPort = Inr (JoinHostPort host port))
   \<and> (\<forall>origErr. SplitHostPort addr = Inl origErr \<longrightarrow>
        (\<forall>hp. SplitHostPort (JoinHostPort addr defaultPort) = Inr hp \<longrightarrow>
           normalizeAddress addr defaultPort = Inr (''http://'' @ JoinHostPort addr defaultPort))
        \<and> (\<forall>err. SplitHostPort (JoinHostPort addr defaultPort) = Inl err \<longrightarrow>
             normalizeAddress addr defaultPort = Inl origErr))"
  by (simp add: normalizeAddress_def Let_def)

theorem normalizeAddress_cases_witness:
  "SplitHostPort ''localhost:8545'' = Inr (''localhost'', ''8545'')
   \<and> normalizeAddress ''localhost:8545'' ''8545'' = Inr ''localhost:8545''
   \<and> SplitHostPort ''localhost'' = Inl (AddrError missingPort ''localhost'')
   \<and> SplitHostPort (JoinHostPort ''localhost'' ''8545'') = Inr (''localhost'', ''8545'')
   \<and> normalizeAddress ''localhost'' ''8545'' = Inr ''http://localhost:8545''
   \<and> SplitHostPort ''['' = Inl (AddrError missingPort ''['')
   \<and> SplitHostPort (JoinHostPort ''['' ''8545'') = Inl (AddrError ''missing ']' in address'' ''[:8545'')
   \<and> normalizeAddress ''['' ''8545'' = Inl (AddrError missingPort ''['')"
proof -
  have a: "SplitHostPort ''localhost:8545'' = Inr (''localhost'', ''8545'')"
    by code_simp
  have b: "SplitHostPort ''localhost'' = Inl (AddrError missingPort ''localhost'')"
    by code_simp
  have c: "SplitHostPort (JoinHostPort ''localhost'' ''8545'') = Inr (''localhost'', ''8545'')"
    by code_simp
  have d: "SplitHostPort ''['' = Inl (AddrError missingPort ''['')"
    by code_simp
  have e: "SplitHostPort (JoinHostPort ''['' ''8545'') = Inl (AddrError ''missing ']' in address'' ''[:8545'')"
    by code_simp
  have j1: "JoinHostPort ''localhost'' ''8545'' = ''localhost:8545''"
    by code_simp
  from normalizeAddress_cases [of "''localhost:8545''" "''8545''"] a j1
  have r1: "normalizeAddress ''localhost:8545'' ''8545'' = Inr ''localhost:8545''"
    by simp
  from normalizeAddress_cases [of "''localhost''" "''8545''"] b c j1
  have r2: "normalizeAddress ''localhost'' ''8545'' = Inr ''http://localhost:8545''"
    by simp
  from normalizeAddress_cases [of "''[''" "''8545''"] d e
  have r3: "normalizeAddress ''['' ''8545'' = Inl (AddrError missingPort ''['')"
    by simp
  show ?thesis using a b c d e r1 r2 r3 by simp
qed

subsection \<open>Commands and their arguments\<close>

text \<open>
  Claim C1: an invocation of participate, redeem, extractsecret or auditcontract that
  passes the checks on its arguments, has a server address that normalises and gets a
  client from the dial, reaches the call of \<open>runCommand\<close> on the nil command: \<open>run\<close>
  panics (after the deferred close of the client) and returns no error value.
\<close>

theorem run_nil_command_panics:
  assumes "Parse flagset osArgs = Parsed f (arg0 # rest)"
    and "arg0 \<in> {''participate'', ''redeem'', ''extractsecret'', ''auditcontract''}"
    and "run_cmdArgs arg0 = Some cmdArgs"
    and "checkCmdArgLength rest cmdArgs = Inr nArgs"
    and "Parse f (drop (1 + nat nArgs) (arg0 # rest)) = Parsed f' remaining"
    and "\<not> nArgs < cmdArgs"
    and "length remaining = 0"
    and "normalizeAddress (connectFlag f') (walletPort ''mainnet'') = Inr connect"
    and "Dial env connect = Inr client"
  shows "run env osArgs = (Panicked NilPointerDereference, [RpcDial connect, RpcClose client])"
proof -
  have "run_cmd arg0 = None"
    using assms(2) by (auto simp: run_cmd_def)
  then show ?thesis
    using assms by (simp add: run_def)
qed

theorem run_nil_command_panics_witness:
  "Parse flagset [''-testnet'', ''participate'', ''0xa1'', ''5'', ''0xh1''] =
     Parsed (flagset\<lparr>testnetFlag := True\<rparr>) [''participate'', ''0xa1'', ''5'', ''0xh1'']
   \<and> ''participate'' \<in> {''participate'', ''redeem'', ''extractsecret'', ''auditcontract''}
   \<and> run_cmdArgs ''participate'' = Some 3
   \<and> checkCmdArgLength [''0xa1'', ''5'', ''0xh1''] 3 = Inr 3
   \<and> Parse (flagset\<lparr>testnetFlag := True\<rparr>)
        (drop (1 + nat 3) [''participate'', ''0xa1'', ''5'', ''0xh1'']) =
      Parsed (flagset\<lparr>testnetFlag := True\<rparr>) []
   \<and> \<not> (3 :: int) < 3
   \<and> length ([] :: string list) = 0
   \<and> normalizeAddress (connectFlag (flagset\<lparr>testnetFlag := True\<rparr>)) (walletPort ''mainnet'') =
      Inr ''http://localhost:8545''
   \<and> Dial example_env ''http://localhost:8545'' = Inr 7
   \<and> run example_env [''-testnet'', ''participate'', ''0xa1'', ''5'', ''0xh1''] =
      (Panicked NilPointerDereference, [RpcDial ''http://localhost:8545'', RpcClose 7])"
proof -
  have h1: "Parse flagset [''-testnet'', ''participate'', ''0xa1'', ''5'', ''0xh1''] =
     Parsed (flagset\<lparr>testnetFlag := True\<rparr>) [''participate'', ''0xa1'', ''5'', ''0xh1'']"
    by code_simp
  have h2: "''participate'' \<in> {''participate'', ''redeem'', ''extractsecret'', ''auditcontract''}"
    by simp
  have h3: "run_cmdArgs ''participate'' = Some 3"
    by (simp add: run_cmdArgs_def)
  have h4: "checkCmdArgLength [''0xa1'', ''5'', ''0xh1''] 3 = Inr 3"
    by (simp add: checkCmdArgLength_def HasPrefix_def)
  have h5: "Parse (flagset\<lparr>testnetFlag := True\<rparr>)
        (drop (1 + nat 3) [''participate'', ''0xa1'', ''5'', ''0xh1'']) =
      Parsed (flagset\<lparr>testnetFlag := True\<rparr>) []"
    by (simp add: Parse_Nil)
  have h6: "\<not> (3 :: int) < 3" by simp
  have h7: "length ([] :: string list) = 0" by simp
  have h8: "normalizeAddress (connectFlag (flagset\<lparr>testnetFlag := True\<rparr>)) (walletPort ''mainnet'') =
      Inr ''http://localhost:8545''"
    by code_simp
  have h9: "Dial example_env ''http://localhost:8545'' = Inr 7"
    by (simp add: example_env_def)
  note r = run_nil_command_panics [OF h1 h2 h3 h4 h5 h6 h7 h8 h9]
  show ?thesis using h1 h2 h3 h4 h5 h6 h7 h8 h9 r by simp
qed

lemma run_unknown_command:
  assumes "Parse flagset osArgs = Parsed f (arg0 # rest)"
    and "run_cmdArgs arg0 = None"
  shows "run env osArgs = (Returned (Some (ErrorString (''unknown command '' @ arg0))) True, [])"
  using assms by (simp add: run_def)

lemma run_too_few_arguments:
  assumes "Parse flagset osArgs = Parsed f (arg0 # rest)"
    and "run_cmdArgs arg0 = Some cmdArgs"
    and "checkCmdArgLength rest cmdArgs = Inr nArgs"
    and "Parse f (drop (1 + nat nArgs) (arg0 # rest)) = Parsed f' remaining"
    and "nArgs < cmdArgs"
  shows "run env osArgs = (Returned (Some (ErrorString (arg0 @ '': too few arguments''))) True, [])"
  using assms by (simp add: run_def)

lemma run_unexpected_argument:
  assumes "Parse flagset osArgs = Parsed f (arg0 # rest)"
    and "run_cmdArgs arg0 = Some cmdArgs"
    and "checkCmdArgLength rest cmdArgs = Inr nArgs"
    and "Parse f (drop (1 + nat nArgs) (arg0 # rest)) = Parsed f' remaining"
    and "\<not> nArgs < cmdArgs"
    and "remaining \<noteq> []"
  shows "run env osArgs =
    (Returned (Some (ErrorString (''unexpected argument: '' @ hd remaining))) True, [])"
  using assms by (simp add: run_def)

text \<open>
  Past the checks on the arguments, \<open>run\<close> either rejects the server address or dials it.
\<close>

lemma run_accepted:
  assumes "Parse flagset osArgs = Parsed f (arg0 # rest)"
    and "run_cmdArgs arg0 = Some cmdArgs"
    and "checkCmdArgLength rest cmdArgs = Inr nArgs"
    and "Parse f (drop (1 + nat nArgs) (arg0 # rest)) = Parsed f' remaining"
    and "\<not> nArgs < cmdArgs"
    and "remaining = []"
  shows "(\<exists>err. normalizeAddress (connectFlag f') (walletPort ''mainnet'') = Inl err
            \<and> run env osArgs =
               (Returned (Some (ErrorString (''geth server address: '' @ Error_string err))) True, []))
       \<or> (\<exists>connect evs. normalizeAddress (connectFlag f') (walletPort ''mainnet'') = Inr connect
            \<and> snd (run env osArgs) = RpcDial connect # evs)"
proof (cases "normalizeAddress (connectFlag f') (walletPort ''mainnet'')")
  case (Inl err)
  then show ?thesis using assms by (simp add: run_def)
next
  case (Inr connect)
  then show ?thesis
    using assms
    by (auto simp: run_def split: sum.splits option.splits prod.splits)
qed

text \<open>Arguments that are all positional: the flag set leaves them as they are.\<close>

lemma Parse_all_positional:
  assumes "\<forall>a \<in> set as. \<not> (length a \<noteq> 1 \<and> HasPrefix a ''-'')"
  shows "Parse f as = Parsed f as"
proof (cases as)
  case Nil
  then show ?thesis by (simp add: Parse_Nil)
next
  case (Cons a rest)
  then have "\<not> (length a \<noteq> 1 \<and> HasPrefix a ''-'')" using assms by simp
  then have "length a < 2 \<or> take 1 a \<noteq> ''-''" by (rule positional_no_flag)
  then show ?thesis unfolding Cons by (rule Parse_positional)
qed

lemma checkCmdArgLength_loop_all_positional:
  assumes "\<forall>a \<in> set xs. \<not> (length a \<noteq> 1 \<and> HasPrefix a ''-'')"
  shows "checkCmdArgLength_loop i xs required = required"
  using assms by (induction xs arbitrary: i) auto

lemma checkCmdArgLength_all_positional:
  assumes "\<forall>a \<in> set as. \<not> (length a \<noteq> 1 \<and> HasPrefix a ''-'')" and "0 \<le> required"
  shows "checkCmdArgLength as required =
    Inr (if int (length as) < required then 0 else required)"
proof -
  have "\<forall>a \<in> set (take (nat required) as). \<not> (length a \<noteq> 1 \<and> HasPrefix a ''-'')"
    using assms(1) by (meson in_set_takeD)
  then have "checkCmdArgLength_loop 0 (take (nat required) as) (nat required) = nat required"
    by (rule checkCmdArgLength_loop_all_positional)
  then show ?thesis using assms(2) by (simp add: checkCmdArgLength_def)
qed

lemma Parse_command_word:
  assumes "run_cmdArgs arg0 = Some cmdArgs"
  shows "Parse flagset (arg0 # as) = Parsed flagset (arg0 # as)"
proof -
  have "take 1 arg0 \<noteq> ''-''" using run_cmdArgs_Some [OF assms] by simp
  then show ?thesis by (simp add: Parse_positional)
qed

lemma run_positional_too_few:
  assumes "run_cmdArgs arg0 = Some cmdArgs"
    and "\<forall>a \<in> set as. \<not> (length a \<noteq> 1 \<and> HasPrefix a ''-'')"
    and "int (length as) < cmdArgs"
  shows "run env (arg0 # as) =
    (Returned (Some (ErrorString (arg0 @ '': too few arguments''))) True, [])"
proof -
  have n: "0 \<le> cmdArgs" using run_cmdArgs_Some [OF assms(1)] by simp
  have c: "checkCmdArgLength as cmdArgs = Inr 0"
    using checkCmdArgLength_all_positional [OF assms(2) n] assms(3) by simp
  have p: "Parse flagset (drop (1 + nat 0) (arg0 # as)) = Parsed flagset as"
    using Parse_all_positional [OF assms(2)] by simp
  have "(0 :: int) < cmdArgs" using run_cmdArgs_Some [OF assms(1)] by simp
  then show ?thesis
    by (rule run_too_few_arguments [OF Parse_command_word [OF assms(1)] assms(1) c p])
qed

lemma run_positional_accepted:
  assumes "run_cmdArgs arg0 = Some cmdArgs"
    and "\<forall>a \<in> set as. \<not> (length a \<noteq> 1 \<and> HasPrefix a ''-'')"
    and "int (length as) = cmdArgs"
  shows "\<exists>evs. snd (run env (arg0 # as)) = RpcDial ''http://localhost:8545'' # evs"
proof -
  have n: "0 \<le> cmdArgs" using run_cmdArgs_Some [OF assms(1)] by simp
  have c: "checkCmdArgLength as cmdArgs = Inr cmdArgs"
    using checkCmdArgLength_all_positional [OF assms(2) n] assms(3) by simp
  have "drop (nat cmdArgs) as = []" using assms(3) by auto
  then have p: "Parse flagset (drop (1 + nat cmdArgs) (arg0 # as)) = Parsed flagset []"
    by (simp add: Parse_Nil)
  have a: "normalizeAddress (connectFlag flagset) (walletPort ''mainnet'') =
      Inr ''http://localhost:8545''"
    by code_simp
  from run_accepted [OF Parse_command_word [OF assms(1)] assms(1) c p, of env] a
  show ?thesis by auto
qed

lemma run_positional_unexpected:
  assumes "run_cmdArgs arg0 = Some cmdArgs"
    and "\<forall>a \<in> set as. \<not> (length a \<noteq> 1 \<and> HasPrefix a ''-'')"
    and "cmdArgs < int (length as)"
  shows "run env (arg0 # as) =
    (Returned (Some (ErrorString (''unexpected argument: '' @ as ! nat cmdArgs))) True, [])"
proof -
  have n: "0 \<le> cmdArgs" using run_cmdArgs_Some [OF assms(1)] by simp
  have c: "checkCmdArgLength as cmdArgs = Inr cmdArgs"
    using checkCmdArgLength_all_positional [OF assms(2) n] assms(3) by simp
  have len: "nat cmdArgs < length as" using assms(3) n by simp
  have "\<forall>a \<in> set (drop (nat cmdArgs) as). \<not> (length a \<noteq> 1 \<and> HasPrefix a ''-'')"
    using assms(2) by (meson in_set_dropD)
  then have "Parse flagset (drop (nat cmdArgs) as) = Parsed flagset (drop (nat cmdArgs) as)"
    by (rule Parse_all_positional)
  then have p: "Parse flagset (drop (1 + nat cmdArgs) (arg0 # as)) =
      Parsed flagset (drop (nat cmdArgs) as)"
    by simp
  have ne: "drop (nat cmdArgs) as \<noteq> []" using len by simp
  have hd: "hd (drop (nat cmdArgs) as) = as ! nat cmdArgs"
    using len by (simp add: hd_drop_conv_nth)
  from run_unexpected_argument [OF Parse_command_word [OF assms(1)] assms(1) c p _ ne, of env] hd
  show ?thesis by simp
qed


lemma run_second_Parse_exits:
  assumes "Parse flagset osArgs = Parsed f (arg0 # rest)"
    and "run_cmdArgs arg0 = Some cmdArgs"
    and "checkCmdArgLength rest cmdArgs = Inr nArgs"
    and "Parse f (drop (1 + nat nArgs) (arg0 # rest)) = ExitOnError status evs"
  shows "run env osArgs = (Exited status, evs)"
  using assms by (simp add: run_def)

text \<open>
  Claim C3, as amended: \<open>run\<close> knows the five commands initiate, participate, redeem,
  extractsecret and auditcontract, with 2, 3, 3, 2 and 2 arguments, and answers any other
  command word with the error \<open>unknown command\<close> and a request for the usage text.
  When the argument counter finds fewer arguments than the command needs, \<open>run\<close> first
  hands the arguments after them to the flag set: if the flag set rejects one of them it
  ends the process there, and only if it returns does \<open>run\<close> return the error
  \<open>too few arguments\<close> with a request for the usage text. In particular a command
  followed by positional arguments only gets \<open>too few arguments\<close> for fewer of them
  than it needs, \<open>unexpected argument\<close> for more, and is taken on to the dial of the
  server for exactly as many.
\<close>

theorem run_command_arguments:
  "run_cmdArgs ''initiate'' = Some 2
   \<and> run_cmdArgs ''participate'' = Some 3
   \<and> run_cmdArgs ''redeem'' = Some 3
   \<and> run_cmdArgs ''extractsecret'' = Some 2
   \<and> run_cmdArgs ''auditcontract'' = Some 2
   \<and> (\<forall>f arg0 rest. Parse flagset osArgs = Parsed f (arg0 # rest) \<longrightarrow>
         arg0 \<notin> {''initiate'', ''participate'', ''redeem'', ''extractsecret'', ''auditcontract''} \<longrightarrow>
         run env osArgs = (Returned (Some (ErrorString (''unknown command '' @ arg0))) True, []))
   \<and> (\<forall>f arg0 rest cmdArgs nArgs status evs.
         Parse flagset osArgs = Parsed f (arg0 # rest) \<longrightarrow>
         run_cmdArgs arg0 = Some cmdArgs \<longrightarrow>
         checkCmdArgLength rest cmdArgs = Inr nArgs \<longrightarrow>
         nArgs < cmdArgs \<longrightarrow>
         Parse f (drop (1 + nat nArgs) (arg0 # rest)) = ExitOnError status evs \<longrightarrow>
         run env osArgs = (Exited status, evs))
   \<and> (\<forall>f arg0 rest cmdArgs nArgs f' remaining.
         Parse flagset osArgs = Parsed f (arg0 # rest) \<longrightarrow>
         run_cmdArgs arg0 = Some cmdArgs \<longrightarrow>
         checkCmdArgLength rest cmdArgs = Inr nArgs \<longrightarrow>
         nArgs < cmdArgs \<longrightarrow>
         Parse f (drop (1 + nat nArgs) (arg0 # rest)) = Parsed f' remaining \<longrightarrow>
         run env osArgs =
           (Returned (Some (ErrorString (arg0 @ '': too few arguments''))) True, []))
   \<and> (\<forall>arg0 cmdArgs as. run_cmdArgs arg0 = Some cmdArgs \<longrightarrow>
         (\<forall>a \<in> set as. \<not> (length a \<noteq> 1 \<and> HasPrefix a ''-'')) \<longrightarrow>
         int (length as) < cmdArgs \<longrightarrow>
         run env (arg0 # as) =
           (Returned (Some (ErrorString (arg0 @ '': too few arguments''))) True, []))
   \<and> (\<forall>arg0 cmdArgs as. run_cmdArgs arg0 = Some cmdArgs \<longrightarrow>
         (\<forall>a \<in> set as. \<not> (length a \<noteq> 1 \<and> HasPrefix a ''-'')) \<longrightarrow>
         int (length as) = cmdArgs \<longrightarrow>
         (\<exists>evs. snd (run env (arg0 # as)) = RpcDial ''http://localhost:8545'' # evs))
   \<and> (\<forall>arg0 cmdArgs as. run_cmdArgs arg0 = Some cmdArgs \<longrightarrow>
         (\<forall>a \<in> set as. \<not> (length a \<noteq> 1 \<and> HasPrefix a ''-'')) \<longrightarrow>
         cmdArgs < int (length as) \<longrightarrow>
         run env (arg0 # as) =
           (Returned (Some (ErrorString (''unexpected argument: '' @ as ! nat cmdArgs))) True, []))"
proof (intro conjI allI impI)
  show "run_cmdArgs ''initiate'' = Some 2" by (simp add: run_cmdArgs_def)
  show "run_cmdArgs ''participate'' = Some 3" by (simp add: run_cmdArgs_def)
  show "run_cmdArgs ''redeem'' = Some 3" by (simp add: run_cmdArgs_def)
  show "run_cmdArgs ''extractsecret'' = Some 2" by (simp add: run_cmdArgs_def)
  show "run_cmdArgs ''auditcontract'' = Some 2" by (simp add: run_cmdArgs_def)
next
  fix f arg0 rest
  assume p: "Parse flagset osArgs = Parsed f (arg0 # rest)"
    and "arg0 \<notin> {''initiate'', ''participate'', ''redeem'', ''extractsecret'', ''auditcontract''}"
  then have "run_cmdArgs arg0 = None" by (simp add: run_cmdArgs_None)
  with p show "run env osArgs =
      (Returned (Some (ErrorString (''unknown command '' @ arg0))) True, [])"
    by (rule run_unknown_command)
next
  fix f arg0 rest cmdArgs nArgs status evs
  assume a: "Parse flagset osArgs = Parsed f (arg0 # rest)"
    "run_cmdArgs arg0 = Some cmdArgs"
    "checkCmdArgLength rest cmdArgs = Inr nArgs"
    "Parse f (drop (1 + nat nArgs) (arg0 # rest)) = ExitOnError status evs"
  show "run env osArgs = (Exited status, evs)"
    by (rule run_second_Parse_exits [OF a])
next
  fix f arg0 rest cmdArgs nArgs f' remaining
  assume a: "Parse flagset osArgs = Parsed f (arg0 # rest)"
    "run_cmdArgs arg0 = Some cmdArgs"
    "checkCmdArgLength rest cmdArgs = Inr nArgs"
    "Parse f (drop (1 + nat nArgs) (arg0 # rest)) = Parsed f' remaining"
    "nArgs < cmdArgs"
  show "run env osArgs =
      (Returned (Some (ErrorString (arg0 @ '': too few arguments''))) True, [])"
    by (rule run_too_few_arguments [OF a])
next
  fix arg0 cmdArgs as
  assume "run_cmdArgs arg0 = Some cmdArgs"
    and "\<forall>a \<in> set as. \<not> (length a \<noteq> 1 \<and> HasPrefix a ''-'')"
    and "int (length as) < cmdArgs"
  then show "run env (arg0 # as) =
      (Returned (Some (ErrorString (arg0 @ '': too few arguments''))) True, [])"
    by (rule run_positional_too_few)
next
  fix arg0 cmdArgs as
  assume "run_cmdArgs arg0 = Some cmdArgs"
    and "\<forall>a \<in> set as. \<not> (length a \<noteq> 1 \<and> HasPrefix a ''-'')"
    and "int (length as) = cmdArgs"
  then show "\<exists>evs. snd (run env (arg0 # as)) = RpcDial ''http://localhost:8545'' # evs"
    by (rule run_positional_accepted)
next
  fix arg0 cmdArgs as
  assume "run_cmdArgs arg0 = Some cmdArgs"
    and "\<forall>a \<in> set as. \<not> (length a \<noteq> 1 \<and> HasPrefix a ''-'')"
    and "cmdArgs < int (length as)"
  then show "run env (arg0 # as) =
      (Returned (Some (ErrorString (''unexpected argument: '' @ as ! nat cmdArgs))) True, [])"
    by (rule run_positional_unexpected)
qed

theorem run_command_arguments_witness:
  "run example_env [''frobnicate'', ''x''] =
     (Returned (Some (ErrorString ''unknown command frobnicate'')) True, [])
   \<and> run example_env [''redeem'', ''0xc0'', ''0xf1''] =
     (Returned (Some (ErrorString ''redeem: too few arguments'')) True, [])
   \<and> run example_env [''initiate'', ''0xa1'', ''-testnet''] =
     (Returned (Some (ErrorString ''initiate: too few arguments'')) True, [])
   \<and> run example_env [''initiate'', ''0xa1'', ''-rpcuser''] =
     (Exited 2, [FlagFailure (NeedsArgument ''rpcuser''), Usage])
   \<and> (\<exists>evs. snd (run example_env [''auditcontract'', ''0xc0'', ''0xf1'']) =
         RpcDial ''http://localhost:8545'' # evs)
   \<and> run example_env [''extractsecret'', ''0xf2'', ''0xh1'', ''more''] =
     (Returned (Some (ErrorString ''unexpected argument: more'')) True, [])"
proof -
  note c2 = conjunct2
  note unknown = run_command_arguments [where env = example_env,
      THEN c2, THEN c2, THEN c2, THEN c2, THEN c2, THEN conjunct1, rule_format]
  note exits = run_command_arguments [where env = example_env,
      THEN c2, THEN c2, THEN c2, THEN c2, THEN c2, THEN c2, THEN conjunct1, rule_format]
  note few = run_command_arguments [where env = example_env,
      THEN c2, THEN c2, THEN c2, THEN c2, THEN c2, THEN c2, THEN c2, THEN conjunct1, rule_format]
  note pfew = run_command_arguments [where env = example_env and osArgs = "[]",
      THEN c2, THEN c2, THEN c2, THEN c2, THEN c2, THEN c2, THEN c2, THEN c2,
      THEN conjunct1, rule_format]
  note pok = run_command_arguments [where env = example_env and osArgs = "[]",
      THEN c2, THEN c2, THEN c2, THEN c2, THEN c2, THEN c2, THEN c2, THEN c2, THEN c2,
      THEN conjunct1, rule_format]
  note pmore = run_command_arguments [where env = example_env and osArgs = "[]",
      THEN c2, THEN c2, THEN c2, THEN c2, THEN c2, THEN c2, THEN c2, THEN c2, THEN c2,
      THEN c2, rule_format]
  have p1: "Parse flagset [''frobnicate'', ''x''] = Parsed flagset [''frobnicate'', ''x'']"
    by code_simp
  have n1: "''frobnicate'' \<notin>
      {''initiate'', ''participate'', ''redeem'', ''extractsecret'', ''auditcontract''}"
    by simp
  have a: "run example_env [''frobnicate'', ''x''] =
     (Returned (Some (ErrorString ''unknown command frobnicate'')) True, [])"
    using unknown [OF p1 n1] by simp
  have ca: "run_cmdArgs ''initiate'' = Some 2" by (simp add: run_cmdArgs_def)
  have lt: "(1 :: int) < 2" by simp
  have p2: "Parse flagset [''initiate'', ''0xa1'', ''-testnet''] =
      Parsed flagset [''initiate'', ''0xa1'', ''-testnet'']"
    by code_simp
  have c2: "checkCmdArgLength [''0xa1'', ''-testnet''] 2 = Inr 1"
    by (simp add: checkCmdArgLength_def HasPrefix_def)
  have q2: "Parse flagset (drop (1 + nat 1) [''initiate'', ''0xa1'', ''-testnet'']) =
      Parsed (flagset\<lparr>testnetFlag := True\<rparr>) []"
    by code_simp
  have c: "run example_env [''initiate'', ''0xa1'', ''-testnet''] =
     (Returned (Some (ErrorString ''initiate: too few arguments'')) True, [])"
    using few [OF p2 ca c2 lt q2] by simp
  have p3: "Parse flagset [''initiate'', ''0xa1'', ''-rpcuser''] =
      Parsed flagset [''initiate'', ''0xa1'', ''-rpcuser'']"
    by code_simp
  have c3: "checkCmdArgLength [''0xa1'', ''-rpcuser''] 2 = Inr 1"
    by (simp add: checkCmdArgLength_def HasPrefix_def)
  have q3: "Parse flagset (drop (1 + nat 1) [''initiate'', ''0xa1'', ''-rpcuser'']) =
      ExitOnError 2 [FlagFailure (NeedsArgument ''rpcuser''), Usage]"
    by code_simp
  have d: "run example_env [''initiate'', ''0xa1'', ''-rpcuser''] =
     (Exited 2, [FlagFailure (NeedsArgument ''rpcuser''), Usage])"
    using exits [OF p3 ca c3 lt q3] by simp
  have pos: "\<forall>a \<in> set [''0xc0'', ''0xf1'']. \<not> (length a \<noteq> 1 \<and> HasPrefix a ''-'')"
    by (simp add: HasPrefix_def)
  have pos3: "\<forall>a \<in> set [''0xf2'', ''0xh1'', ''more'']. \<not> (length a \<noteq> 1 \<and> HasPrefix a ''-'')"
    by (simp add: HasPrefix_def)
  have cr: "run_cmdArgs ''redeem'' = Some 3" by (simp add: run_cmdArgs_def)
  have ce: "run_cmdArgs ''extractsecret'' = Some 2" by (simp add: run_cmdArgs_def)
  have cu: "run_cmdArgs ''auditcontract'' = Some 2" by (simp add: run_cmdArgs_def)
  have l1: "int (length [''0xc0'', ''0xf1'']) < 3" by simp
  have l2: "int (length [''0xc0'', ''0xf1'']) = 2" by simp
  have l3: "2 < int (length [''0xf2'', ''0xh1'', ''more''])" by simp
  have b: "run example_env [''redeem'', ''0xc0'', ''0xf1''] =
     (Returned (Some (ErrorString ''redeem: too few arguments'')) True, [])"
    using pfew [OF cr pos [rule_format] l1] by simp
  have e: "\<exists>evs. snd (run example_env [''auditcontract'', ''0xc0'', ''0xf1'']) =
         RpcDial ''http://localhost:8545'' # evs"
    using pok [OF cu pos [rule_format] l2] by simp
  have g: "run example_env [''extractsecret'', ''0xf2'', ''0xh1'', ''more''] =
     (Returned (Some (ErrorString ''unexpected argument: more'')) True, [])"
    using pmore [OF ce pos3 [rule_format] l3] by simp
  show ?thesis using a b c d e g by simp
qed

text \<open>
  The claim as it stands fails where a flag that the flag set rejects follows too few
  arguments: the process ends in \<open>flagset.Parse\<close> with status 2, and \<open>run\<close> returns
  nothing.
\<close>

theorem run_too_few_counterexample:
  "run example_env [''initiate'', ''0xa1'', ''-bogus''] =
     (Exited 2, [FlagFailure (NotDefined ''bogus''), Usage])
   \<and> checkCmdArgLength [''0xa1'', ''-bogus''] 2 = Inr 1"
  by code_simp

subsection \<open>The network flag\<close>

lemma walletPort_any: "walletPort params = ''8545''"
  by (simp add: walletPort_def)

lemma run_dial_address:
  assumes "Parse flagset osArgs = Parsed f (arg0 # rest)"
    and "run_cmdArgs arg0 = Some cmdArgs"
    and "checkCmdArgLength rest cmdArgs = Inr nArgs"
    and "Parse f (drop (1 + nat nArgs) (arg0 # rest)) = Parsed f' remaining"
  shows "RpcDial connect \<in> set (snd (run env osArgs)) \<longleftrightarrow>
     \<not> nArgs < cmdArgs \<and> remaining = []
     \<and> normalizeAddress (connectFlag f') (walletPort ''mainnet'') = Inr connect"
  using assms
  by (auto simp: run_def dest: runCommand_no_RpcDial
      split: sum.splits option.splits prod.splits)


subsection \<open>The initiate command\<close>

text \<open>
  Claim C5, as amended: the one RPC call of the initiate command runs under a context
  made inside \<open>runCommand\<close> from the background context with a timeout of ten seconds.
  The wait is bounded by these ten seconds whatever context the caller passes: the
  parameter \<open>ctx\<close> is overwritten before it is used.
\<close>

theorem runCommand_call_deadline:
  "(\<exists>cl cx m as. RpcCall cl cx m as \<in> set (snd (runCommand cmd env ctx c)))
   \<and> (\<forall>cl cx m as. RpcCall cl cx m as \<in> set (snd (runCommand cmd env ctx c)) \<longrightarrow>
         cx = WithTimeout Background (10 * Second) \<and> Deadline cx = Some 10000000000)"
  by (cases cmd)
     (auto simp: initiateCmd_runCommand_def Let_def Second_def split: sum.splits)

theorem runCommand_call_deadline_witness:
  "RpcCall 7 (WithTimeout Background (10 * Second)) ''eth_getBlockByNumber''
      [ArgString ''latest'', ArgBool False]
     \<in> set (snd (runCommand initiateCmd example_env Background 7))
   \<and> Deadline (WithTimeout Background (10 * Second)) = Some 10000000000"
proof -
  have m: "RpcCall 7 (WithTimeout Background (10 * Second)) ''eth_getBlockByNumber''
      [ArgString ''latest'', ArgBool False]
     \<in> set (snd (runCommand initiateCmd example_env Background 7))"
    by (simp add: initiateCmd_runCommand_def example_env_def Let_def)
  from runCommand_call_deadline [of initiateCmd example_env Background 7] m
  show ?thesis by blast
qed

text \<open>
  The claim as it stands fails for a caller that allows one second: the call is made
  with the ten seconds of the command, not with the caller's deadline.
\<close>

theorem runCommand_caller_deadline_counterexample:
  "snd (runCommand initiateCmd example_env (WithTimeout Background Second) 7) =
     [RpcCall 7 (WithTimeout Background (10 * Second)) ''eth_getBlockByNumber''
        [ArgString ''latest'', ArgBool False],
      Stdout ''0x10'', Stdout ''0xabc'']
   \<and> Deadline (WithTimeout Background Second) = Some 1000000000
   \<and> Deadline (WithTimeout Background (10 * Second)) = Some 10000000000"
  by (simp add: initiateCmd_runCommand_def example_env_def Let_def Second_def)

lemma run_initiate_positional:
  assumes "\<forall>x \<in> set [p, a]. \<not> (length x \<noteq> 1 \<and> HasPrefix x ''-'')"
  shows "run env [''initiate'', p, a] =
    (case Dial env ''http://localhost:8545'' of
       Inl err \<Rightarrow>
         (Returned (Some (ErrorString (''rpc connect: '' @ Error_string err))) False,
          [RpcDial ''http://localhost:8545''])
     | Inr client \<Rightarrow>
         (let (err, evs) = initiateCmd_runCommand env Background client in
          (Returned err False, RpcDial ''http://localhost:8545'' # evs @ [RpcClose client])))"
proof -
  have c: "run_cmdArgs ''initiate'' = Some 2" by (simp add: run_cmdArgs_def)
  have p1: "Parse flagset [''initiate'', p, a] = Parsed flagset [''initiate'', p, a]"
    by (rule Parse_command_word [OF c])
  have k: "checkCmdArgLength [p, a] 2 = Inr 2"
    using checkCmdArgLength_all_positional [OF assms, of 2] by simp
  have p2: "Parse flagset (drop (1 + nat 2) [''initiate'', p, a]) = Parsed flagset []"
    by (simp add: Parse_Nil)
  have n: "normalizeAddress (connectFlag flagset) (walletPort ''mainnet'') =
      Inr ''http://localhost:8545''"
    by code_simp
  have d: "run_cmd ''initiate'' = Some initiateCmd" by (simp add: run_cmd_def)
  show ?thesis
    using c p1 k p2 n d by (simp add: run_def split: sum.splits)
qed

text \<open>
  Claim C4, as amended: the initiate command asks the server for the latest block (the
  method \<open>eth_getBlockByNumber\<close> with the arguments \<open>latest\<close> and \<open>false\<close>) and prints
  the number and the hash of the block; when the call fails it returns the error of the
  call. It chooses no secret and builds no contract, and neither the participant's address
  nor the amount has any part in it: \<open>run\<close> ends the same way, having printed and sent
  the same, for every address and amount.
\<close>

theorem initiate_prints_latest_block:
  "(\<forall>lastBlock.
      CallContext env c (WithTimeout Background (10 * Second)) ''eth_getBlockByNumber''
        [ArgString ''latest'', ArgBool False] = Inr lastBlock \<longrightarrow>
      runCommand initiateCmd env ctx c =
        (None,
         [RpcCall c (WithTimeout Background (10 * Second)) ''eth_getBlockByNumber''
            [ArgString ''latest'', ArgBool False],
          Stdout (Number lastBlock), Stdout (Hash lastBlock)]))
   \<and> (\<forall>err.
        CallContext env c (WithTimeout Background (10 * Second)) ''eth_getBlockByNumber''
          [ArgString ''latest'', ArgBool False] = Inl err \<longrightarrow>
        runCommand initiateCmd env ctx c =
          (Some err,
           [RpcCall c (WithTimeout Background (10 * Second)) ''eth_getBlockByNumber''
              [ArgString ''latest'', ArgBool False],
            Println ''can't get latest block:'' err]))
   \<and> (\<forall>p a p' a'.
        (\<forall>x \<in> set [p, a]. \<not> (length x \<noteq> 1 \<and> HasPrefix x ''-'')) \<longrightarrow>
        (\<forall>x \<in> set [p', a']. \<not> (length x \<noteq> 1 \<and> HasPrefix x ''-'')) \<longrightarrow>
        run env [''initiate'', p, a] = run env [''initiate'', p', a'])"
proof (intro conjI allI impI)
  fix lastBlock
  assume "CallContext env c (WithTimeout Background (10 * Second)) ''eth_getBlockByNumber''
        [ArgString ''latest'', ArgBool False] = Inr lastBlock"
  then show "runCommand initiateCmd env ctx c =
        (None,
         [RpcCall c (WithTimeout Background (10 * Second)) ''eth_getBlockByNumber''
            [ArgString ''latest'', ArgBool False],
          Stdout (Number lastBlock), Stdout (Hash lastBlock)])"
    by (simp add: initiateCmd_runCommand_def Let_def)
next
  fix err
  assume "CallContext env c (WithTimeout Background (10 * Second)) ''eth_getBlockByNumber''
          [ArgString ''latest'', ArgBool False] = Inl err"
  then show "runCommand initiateCmd env ctx c =
          (Some err,
           [RpcCall c (WithTimeout Background (10 * Second)) ''eth_getBlockByNumber''
              [ArgString ''latest'', ArgBool False],
            Println ''can't get latest block:'' err])"
    by (simp add: initiateCmd_runCommand_def Let_def)
next
  fix p a p' a'
  assume 1: "\<forall>x \<in> set [p, a]. \<not> (length x \<noteq> 1 \<and> HasPrefix x ''-'')"
    and 2: "\<forall>x \<in> set [p', a']. \<not> (length x \<noteq> 1 \<and> HasPrefix x ''-'')"
  show "run env [''initiate'', p, a] = run env [''initiate'', p', a']"
    by (simp only: run_initiate_positional [OF 1] run_initiate_positional [OF 2])
qed

theorem initiate_prints_latest_block_witness:
  "CallContext example_env 7 (WithTimeout Background (10 * Second)) ''eth_getBlockByNumber''
      [ArgString ''latest'', ArgBool False] = Inr \<lparr>Number = ''0x10'', Hash = ''0xabc''\<rparr>
   \<and> runCommand initiateCmd example_env Background 7 =
        (None,
         [RpcCall 7 (WithTimeout Background (10 * Second)) ''eth_getBlockByNumber''
            [ArgString ''latest'', ArgBool False],
          Stdout ''0x10'', Stdout ''0xabc''])
   \<and> CallContext (example_env\<lparr>CallContext := \<lambda>c ctx m as. Inl (ErrorString ''timeout'')\<rparr>) 7
        (WithTimeout Background (10 * Second)) ''eth_getBlockByNumber''
        [ArgString ''latest'', ArgBool False] = Inl (ErrorString ''timeout'')
   \<and> runCommand initiateCmd
        (example_env\<lparr>CallContext := \<lambda>c ctx m as. Inl (ErrorString ''timeout'')\<rparr>) Background 7 =
        (Some (ErrorString ''timeout''),
         [RpcCall 7 (WithTimeout Background (10 * Second)) ''eth_getBlockByNumber''
            [ArgString ''latest'', ArgBool False],
          Println ''can't get latest block:'' (ErrorString ''timeout'')])
   \<and> run example_env [''initiate'', ''0xa1'', ''5''] =
      run example_env [''initiate'', ''0xb2'', ''70'']"
proof -
  let ?bad = "example_env\<lparr>CallContext := \<lambda>c ctx m as. Inl (ErrorString ''timeout'')\<rparr>"
  note ok = initiate_prints_latest_block [where env = example_env and c = 7 and ctx = Background,
      THEN conjunct1, rule_format]
  note failed = initiate_prints_latest_block [where env = ?bad and c = 7 and ctx = Background,
      THEN conjunct2, THEN conjunct1, rule_format]
  note same = initiate_prints_latest_block [where env = example_env,
      THEN conjunct2, THEN conjunct2, rule_format]
  have h1: "CallContext example_env 7 (WithTimeout Background (10 * Second))
      ''eth_getBlockByNumber'' [ArgString ''latest'', ArgBool False] =
      Inr \<lparr>Number = ''0x10'', Hash = ''0xabc''\<rparr>"
    by (simp add: example_env_def)
  have h2: "CallContext ?bad 7 (WithTimeout Background (10 * Second))
      ''eth_getBlockByNumber'' [ArgString ''latest'', ArgBool False] =
      Inl (ErrorString ''timeout'')"
    by simp
  have h3: "\<forall>x \<in> set [''0xa1'', ''5'']. \<not> (length x \<noteq> 1 \<and> HasPrefix x ''-'')"
    by (simp add: HasPrefix_def)
  have h4: "\<forall>x \<in> set [''0xb2'', ''70'']. \<not> (length x \<noteq> 1 \<and> HasPrefix x ''-'')"
    by (simp add: HasPrefix_def)
  have r1: "runCommand initiateCmd example_env Background 7 =
        (None,
         [RpcCall 7 (WithTimeout Background (10 * Second)) ''eth_getBlockByNumber''
            [ArgString ''latest'', ArgBool False],
          Stdout ''0x10'', Stdout ''0xabc''])"
    using ok [OF h1] by simp
  have r2: "runCommand initiateCmd ?bad Background 7 =
        (Some (ErrorString ''timeout''),
         [RpcCall 7 (WithTimeout Background (10 * Second)) ''eth_getBlockByNumber''
            [ArgString ''latest'', ArgBool False],
          Println ''can't get latest block:'' (ErrorString ''timeout'')])"
    by (rule failed [OF h2])
  have r3: "run example_env [''initiate'', ''0xa1'', ''5''] =
      run example_env [''initiate'', ''0xb2'', ''70'']"
    by (rule same [OF h3 [rule_format] h4 [rule_format]])
  show ?thesis using h1 h2 r1 r2 r3 by simp
qed

text \<open>
  The claim as it stands fails: for two participants and two amounts the command prints
  the same two lines, the number and the hash of the latest block, and nothing of a
  contract or an amount.
\<close>

theorem initiate_emits_no_contract_counterexample:
  "run example_env [''initiate'', ''0xa1'', ''5''] =
     (Returned None False,
      [RpcDial ''http://localhost:8545'',
       RpcCall 7 (WithTimeout Background (10 * Second)) ''eth_getBlockByNumber''
         [ArgString ''latest'', ArgBool False],
       Stdout ''0x10'', Stdout ''0xabc'', RpcClose 7])
   \<and> run example_env [''initiate'', ''0xb2'', ''70''] =
     (Returned None False,
      [RpcDial ''http://localhost:8545'',
       RpcCall 7 (WithTimeout Background (10 * Second)) ''eth_getBlockByNumber''
         [ArgString ''latest'', ArgBool False],
       Stdout ''0x10'', Stdout ''0xabc'', RpcClose 7])"
  by code_simp

subsection \<open>The exit status\<close>

lemma IndexByteString_None: "IndexByteString s c = None \<longleftrightarrow> c \<notin> set s"
  by (induction s) auto

lemma Parse_Failf:
  "parseOne f args = Failf e \<Longrightarrow> Parse f args = ExitOnError 2 [FlagFailure e, Usage]"
  by (simp add: Parse.simps [of f args])

lemma Parse_ErrHelp: "parseOne f args = ErrHelp \<Longrightarrow> Parse f args = ExitOnError 0 [Usage]"
  by (simp add: Parse.simps [of f args])

lemma parseOne_help:
  "parseOne f (''-h'' # rest) = ErrHelp"
  "parseOne f (''-help'' # rest) = ErrHelp"
  "parseOne f (''--h'' # rest) = ErrHelp"
  "parseOne f (''--help'' # rest) = ErrHelp"
  by (simp_all add: parseOne_def Let_def)

lemma parseOne_needs_argument:
  "parseOne f [''-s''] = Failf (NeedsArgument ''s'')"
  "parseOne f [''-rpcuser''] = Failf (NeedsArgument ''rpcuser'')"
  "parseOne f [''-rpcpass''] = Failf (NeedsArgument ''rpcpass'')"
  by (simp_all add: parseOne_def Let_def)

lemma parseOne_invalid_boolean:
  assumes "ParseBool v = None"
  shows "parseOne f ((''-testnet='' @ v) # rest) = Failf (InvalidBooleanValue v ''testnet'')"
  using assms by (simp add: parseOne_def Let_def)

lemma parseOne_not_defined:
  assumes "name \<noteq> []" and "hd name \<noteq> CHR ''-''" and "hd name \<noteq> CHR ''=''"
    and "CHR ''='' \<notin> set name"
    and "name \<notin> {''s'', ''rpcuser'', ''rpcpass'', ''testnet'', ''help'', ''h''}"
  shows "parseOne f ((CHR ''-'' # name) # rest) = Failf (NotDefined name)"
proof -
  from assms(1) obtain x xs where n: "name = x # xs" by (cases name) auto
  have "CHR ''='' \<notin> set (drop 1 name)" using assms(4) by (meson in_set_dropD)
  then have i: "IndexByteString (drop 1 name) CHR ''='' = None"
    by (simp add: IndexByteString_None)
  have l: "\<not> length (CHR ''-'' # name) < 2" using assms(1) by (cases name) auto
  have m: "(CHR ''-'' # name) ! 1 \<noteq> CHR ''-''" using assms(2) n by simp
  have t: "take 1 name \<noteq> ''-''" "take 1 name \<noteq> ''=''" "length name \<noteq> 0"
    using assms(2,3) n by simp_all
  have d: "drop 1 (CHR ''-'' # name) = name" by simp
  have nm: "((1 :: nat) = 2 \<and> length (CHR ''-'' # name) = 2) = False" by simp
  have k: "take 1 (CHR ''-'' # name) = ''-''" by simp
  have e: "name \<noteq> ''s''" "name \<noteq> ''rpcuser''" "name \<noteq> ''rpcpass''" "name \<noteq> ''testnet''"
    "name \<noteq> ''help''" "name \<noteq> ''h''"
    using assms(5) by simp_all
  show ?thesis
    unfolding parseOne_def list.case
    by (simp only: l m t d k i e nm Let_def if_False if_True simp_thms option.case prod.case)
qed

lemma main_first_Parse_exits:
  assumes "Parse flagset osArgs = ExitOnError status evs"
  shows "main env osArgs = (ExitStatus status, evs)"
  using assms by (simp add: main_def run_def)

lemma main_second_Parse_exits:
  assumes "Parse flagset osArgs = Parsed f (arg0 # rest)"
    and "run_cmdArgs arg0 = Some cmdArgs"
    and "checkCmdArgLength rest cmdArgs = Inr nArgs"
    and "Parse f (drop (1 + nat nArgs) (arg0 # rest)) = ExitOnError status evs"
  shows "main env osArgs = (ExitStatus status, evs)"
  using run_second_Parse_exits [OF assms, of env] by (simp add: main_def)

text \<open>
  Claim C2, as amended: when \<open>run\<close> returns, the process ends with status 0 if \<open>run\<close>
  returned neither an error nor a request for the usage text, and with status 1
  otherwise, and the usage text is printed exactly when \<open>run\<close> asked for it. When the
  flag set rejects an argument, in the first or in the second \<open>Parse\<close> of \<open>run\<close>, it ends
  the process itself after its message and the usage text, with status 2: so for a flag
  that is not defined, a flag without its value and a boolean flag with a value that is
  no boolean. For \<open>-h\<close> or \<open>-help\<close> it prints the usage text and ends the process with
  status 0.
\<close>

theorem main_exit_status:
  "(\<forall>err showUsage evs. run env osArgs = (Returned err showUsage, evs) \<longrightarrow>
      fst (main env osArgs) = ExitStatus (if err = None \<and> \<not> showUsage then 0 else 1)
      \<and> (Usage \<in> set (snd (main env osArgs)) \<longleftrightarrow> showUsage))
   \<and> (\<forall>status evs. run env osArgs = (Exited status, evs) \<longrightarrow>
        main env osArgs = (ExitStatus status, evs)
        \<and> ((status = 2 \<and> (\<exists>e. evs = [FlagFailure e, Usage])) \<or> (status = 0 \<and> evs = [Usage])))
   \<and> (\<forall>f args e. parseOne f args = Failf e \<longrightarrow>
        Parse f args = ExitOnError 2 [FlagFailure e, Usage])
   \<and> (\<forall>f args. parseOne f args = ErrHelp \<longrightarrow> Parse f args = ExitOnError 0 [Usage])
   \<and> (\<forall>status evs. Parse flagset osArgs = ExitOnError status evs \<longrightarrow>
        main env osArgs = (ExitStatus status, evs))
   \<and> (\<forall>f arg0 rest cmdArgs nArgs status evs.
        Parse flagset osArgs = Parsed f (arg0 # rest) \<longrightarrow>
        run_cmdArgs arg0 = Some cmdArgs \<longrightarrow>
        checkCmdArgLength rest cmdArgs = Inr nArgs \<longrightarrow>
        Parse f (drop (1 + nat nArgs) (arg0 # rest)) = ExitOnError status evs \<longrightarrow>
        main env osArgs = (ExitStatus status, evs))
   \<and> (\<forall>rest. main env (''-h'' # rest) = (ExitStatus 0, [Usage])
        \<and> main env (''-help'' # rest) = (ExitStatus 0, [Usage])
        \<and> main env (''--h'' # rest) = (ExitStatus 0, [Usage])
        \<and> main env (''--help'' # rest) = (ExitStatus 0, [Usage]))
   \<and> (\<forall>name rest. name \<noteq> [] \<longrightarrow> hd name \<noteq> CHR ''-'' \<longrightarrow> hd name \<noteq> CHR ''='' \<longrightarrow>
        CHR ''='' \<notin> set name \<longrightarrow>
        name \<notin> {''s'', ''rpcuser'', ''rpcpass'', ''testnet'', ''help'', ''h''} \<longrightarrow>
        main env ((CHR ''-'' # name) # rest) =
          (ExitStatus 2, [FlagFailure (NotDefined name), Usage]))
   \<and> (\<forall>v rest. ParseBool v = None \<longrightarrow>
        main env ((''-testnet='' @ v) # rest) =
          (ExitStatus 2, [FlagFailure (InvalidBooleanValue v ''testnet''), Usage]))
   \<and> main env [''-s''] = (ExitStatus 2, [FlagFailure (NeedsArgument ''s''), Usage])
   \<and> main env [''-rpcuser''] = (ExitStatus 2, [FlagFailure (NeedsArgument ''rpcuser''), Usage])
   \<and> main env [''-rpcpass''] = (ExitStatus 2, [FlagFailure (NeedsArgument ''rpcpass''), Usage])"
proof (intro conjI allI impI)
  fix err showUsage evs
  assume r: "run env osArgs = (Returned err showUsage, evs)"
  then show "fst (main env osArgs) = ExitStatus (if err = None \<and> \<not> showUsage then 0 else 1)"
    by (simp add: main_def Let_def)
  have "Usage \<notin> set evs" using r by (rule run_Returned_no_Usage)
  then show "Usage \<in> set (snd (main env osArgs)) \<longleftrightarrow> showUsage"
    using r by (auto simp: main_def Let_def split: option.splits)
next
  fix status evs
  assume r: "run env osArgs = (Exited status, evs)"
  then show "main env osArgs = (ExitStatus status, evs)"
    by (simp add: main_def)
  show "(status = 2 \<and> (\<exists>e. evs = [FlagFailure e, Usage])) \<or> (status = 0 \<and> evs = [Usage])"
    using r by (rule run_Exited)
next
  fix f args e
  assume "parseOne f args = Failf e"
  then show "Parse f args = ExitOnError 2 [FlagFailure e, Usage]" by (rule Parse_Failf)
next
  fix f args
  assume "parseOne f args = ErrHelp"
  then show "Parse f args = ExitOnError 0 [Usage]" by (rule Parse_ErrHelp)
next
  fix status evs
  assume "Parse flagset osArgs = ExitOnError status evs"
  then show "main env osArgs = (ExitStatus status, evs)" by (rule main_first_Parse_exits)
next
  fix f arg0 rest cmdArgs nArgs status evs
  assume a: "Parse flagset osArgs = Parsed f (arg0 # rest)"
    "run_cmdArgs arg0 = Some cmdArgs"
    "checkCmdArgLength rest cmdArgs = Inr nArgs"
    "Parse f (drop (1 + nat nArgs) (arg0 # rest)) = ExitOnError status evs"
  show "main env osArgs = (ExitStatus status, evs)"
    by (rule main_second_Parse_exits [OF a])
next
  fix rest
  show "main env (''-h'' # rest) = (ExitStatus 0, [Usage])"
    by (rule main_first_Parse_exits [OF Parse_ErrHelp [OF parseOne_help(1)]])
  show "main env (''-help'' # rest) = (ExitStatus 0, [Usage])"
    by (rule main_first_Parse_exits [OF Parse_ErrHelp [OF parseOne_help(2)]])
  show "main env (''--h'' # rest) = (ExitStatus 0, [Usage])"
    by (rule main_first_Parse_exits [OF Parse_ErrHelp [OF parseOne_help(3)]])
  show "main env (''--help'' # rest) = (ExitStatus 0, [Usage])"
    by (rule main_first_Parse_exits [OF Parse_ErrHelp [OF parseOne_help(4)]])
next
  fix name rest
  assume a: "name \<noteq> []" "hd name \<noteq> CHR ''-''" "hd name \<noteq> CHR ''=''"
    "CHR ''='' \<notin> set name"
    "name \<notin> {''s'', ''rpcuser'', ''rpcpass'', ''testnet'', ''help'', ''h''}"
  show "main env ((CHR ''-'' # name) # rest) =
      (ExitStatus 2, [FlagFailure (NotDefined name), Usage])"
    by (rule main_first_Parse_exits [OF Parse_Failf [OF parseOne_not_defined [OF a]]])
next
  fix v rest
  assume "ParseBool v = None"
  then show "main env ((''-testnet='' @ v) # rest) =
      (ExitStatus 2, [FlagFailure (InvalidBooleanValue v ''testnet''), Usage])"
    by (intro main_first_Parse_exits Parse_Failf parseOne_invalid_boolean)
next
  show "main env [''-s''] = (ExitStatus 2, [FlagFailure (NeedsArgument ''s''), Usage])"
    by (rule main_first_Parse_exits [OF Parse_Failf [OF parseOne_needs_argument(1)]])
  show "main env [''-rpcuser''] = (ExitStatus 2, [FlagFailure (NeedsArgument ''rpcuser''), Usage])"
    by (rule main_first_Parse_exits [OF Parse_Failf [OF parseOne_needs_argument(2)]])
  show "main env [''-rpcpass''] = (ExitStatus 2, [FlagFailure (NeedsArgument ''rpcpass''), Usage])"
    by (rule main_first_Parse_exits [OF Parse_Failf [OF parseOne_needs_argument(3)]])
qed

theorem main_exit_status_witness:
  "run example_env [''initiate'', ''0xa1'', ''5''] =
     (Returned None False,
      [RpcDial ''http://localhost:8545'',
       RpcCall 7 (WithTimeout Background (10 * Second)) ''eth_getBlockByNumber''
         [ArgString ''latest'', ArgBool False],
       Stdout ''0x10'', Stdout ''0xabc'', RpcClose 7])
   \<and> fst (main example_env [''initiate'', ''0xa1'', ''5'']) = ExitStatus 0
   \<and> Usage \<notin> set (snd (main example_env [''initiate'', ''0xa1'', ''5'']))
   \<and> run example_env [] = (Returned None True, [])
   \<and> fst (main example_env []) = ExitStatus 1
   \<and> Usage \<in> set (snd (main example_env []))
   \<and> run example_env [''--testnet=maybe'', ''initiate''] =
       (Exited 2, [FlagFailure (InvalidBooleanValue ''maybe'' ''testnet''), Usage])
   \<and> main example_env [''--testnet=maybe'', ''initiate''] =
       (ExitStatus 2, [FlagFailure (InvalidBooleanValue ''maybe'' ''testnet''), Usage])
   \<and> main example_env [''-frobnicate'', ''initiate''] =
       (ExitStatus 2, [FlagFailure (NotDefined ''frobnicate''), Usage])
   \<and> main example_env [''-testnet=maybe''] =
       (ExitStatus 2, [FlagFailure (InvalidBooleanValue ''maybe'' ''testnet''), Usage])
   \<and> main example_env [''initiate'', ''0xa1'', ''-rpcpass''] =
       (ExitStatus 2, [FlagFailure (NeedsArgument ''rpcpass''), Usage])
   \<and> main example_env [''-testnet'', ''-rpcuser'', ''u1'', ''-help''] = (ExitStatus 0, [Usage])"
proof -
  note c2 = conjunct2
  note returned = main_exit_status [where env = example_env, THEN conjunct1, rule_format]
  note exited = main_exit_status [where env = example_env, THEN c2, THEN conjunct1, rule_format]
  note first = main_exit_status [where env = example_env,
      THEN c2, THEN c2, THEN c2, THEN c2, THEN conjunct1, rule_format]
  note second = main_exit_status [where env = example_env,
      THEN c2, THEN c2, THEN c2, THEN c2, THEN c2, THEN conjunct1, rule_format]
  note undefined = main_exit_status [where env = example_env and osArgs = "[]",
      THEN c2, THEN c2, THEN c2, THEN c2, THEN c2, THEN c2, THEN c2, THEN conjunct1,
      rule_format]
  note boolean = main_exit_status [where env = example_env and osArgs = "[]",
      THEN c2, THEN c2, THEN c2, THEN c2, THEN c2, THEN c2, THEN c2, THEN c2, THEN conjunct1,
      rule_format]
  have h1: "run example_env [''initiate'', ''0xa1'', ''5''] =
     (Returned None False,
      [RpcDial ''http://localhost:8545'',
       RpcCall 7 (WithTimeout Background (10 * Second)) ''eth_getBlockByNumber''
         [ArgString ''latest'', ArgBool False],
       Stdout ''0x10'', Stdout ''0xabc'', RpcClose 7])"
    by code_simp
  have h2: "run example_env [] = (Returned None True, [])"
    by code_simp
  have h3: "run example_env [''--testnet=maybe'', ''initiate''] =
       (Exited 2, [FlagFailure (InvalidBooleanValue ''maybe'' ''testnet''), Usage])"
    by code_simp
  have r1: "fst (main example_env [''initiate'', ''0xa1'', ''5'']) = ExitStatus 0"
    "Usage \<notin> set (snd (main example_env [''initiate'', ''0xa1'', ''5'']))"
    using returned [OF h1] by simp_all
  have r2: "fst (main example_env []) = ExitStatus 1" "Usage \<in> set (snd (main example_env []))"
    using returned [OF h2] by simp_all
  have r3: "main example_env [''--testnet=maybe'', ''initiate''] =
       (ExitStatus 2, [FlagFailure (InvalidBooleanValue ''maybe'' ''testnet''), Usage])"
    using exited [OF h3] by simp
  have u: "''frobnicate'' \<noteq> []" "hd ''frobnicate'' \<noteq> CHR ''-''" "hd ''frobnicate'' \<noteq> CHR ''=''"
    "CHR ''='' \<notin> set ''frobnicate''"
    "''frobnicate'' \<notin> {''s'', ''rpcuser'', ''rpcpass'', ''testnet'', ''help'', ''h''}"
    by simp_all
  have r4: "main example_env [''-frobnicate'', ''initiate''] =
       (ExitStatus 2, [FlagFailure (NotDefined ''frobnicate''), Usage])"
    using undefined [OF u, of "[''initiate'']"] by simp
  have b: "ParseBool ''maybe'' = None" by (simp add: ParseBool_def)
  have r5: "main example_env [''-testnet=maybe''] =
       (ExitStatus 2, [FlagFailure (InvalidBooleanValue ''maybe'' ''testnet''), Usage])"
    using boolean [OF b, of "[]"] by simp
  have p6: "Parse flagset [''initiate'', ''0xa1'', ''-rpcpass''] =
      Parsed flagset [''initiate'', ''0xa1'', ''-rpcpass'']"
    by code_simp
  have c6: "run_cmdArgs ''initiate'' = Some 2" by (simp add: run_cmdArgs_def)
  have k6: "checkCmdArgLength [''0xa1'', ''-rpcpass''] 2 = Inr 1"
    by (simp add: checkCmdArgLength_def HasPrefix_def)
  have q6: "Parse flagset (drop (1 + nat 1) [''initiate'', ''0xa1'', ''-rpcpass'']) =
      ExitOnError 2 [FlagFailure (NeedsArgument ''rpcpass''), Usage]"
    by code_simp
  have r6: "main example_env [''initiate'', ''0xa1'', ''-rpcpass''] =
       (ExitStatus 2, [FlagFailure (NeedsArgument ''rpcpass''), Usage])"
    by (rule second [OF p6 c6 k6 q6])
  have p7: "Parse flagset [''-testnet'', ''-rpcuser'', ''u1'', ''-help''] = ExitOnError 0 [Usage]"
    by code_simp
  have r7: "main example_env [''-testnet'', ''-rpcuser'', ''u1'', ''-help''] =
      (ExitStatus 0, [Usage])"
    by (rule first [OF p7])
  show ?thesis using h1 h2 h3 r1 r2 r3 r4 r5 r6 r7 by simp
qed

text \<open>
  The claim as it stands fails for an argument that the flag set rejects: the exit status
  is 2, not 1.
\<close>

theorem main_exit_status_counterexample:
  "main example_env [''-bogus''] = (ExitStatus 2, [FlagFailure (NotDefined ''bogus''), Usage])"
  by code_simp

subsection \<open>What the program prints and sends\<close>











end
